theory Spec2Isabelle
  imports Complex_Main
begin

section \<open>Time and the date-fns helpers\<close>

text \<open>
  A JavaScript \<^verbatim>\<open>Date\<close> is an instant: a whole number of milliseconds since the epoch
  (\<^verbatim>\<open>getTime()\<close>). It is modelled as an \<open>int\<close>. The configured window length is a whole
  number of seconds, an \<open>int\<close> as well: the model covers whole-second configurations
  only, since with a fractional length the component's double arithmetic rounds where
  exact arithmetic does not. The fractional numbers that remain are counts of seconds
  obtained from whole milliseconds: a difference of instants divided by 1000, such a
  quotient subtracted from the whole window length, and half of that. They are modelled
  as \<open>rat\<close> with exact arithmetic. Each of them is a multiple of 1/2000; where it is a
  whole number the double computation is exact, and where it is not it lies at least
  1/2000 from the next whole number, far more than a double is off at the sizes of
  instants and window lengths, so the truncation that date-fns applies agrees.
\<close>

type_synonym Date = int

text \<open>
  The component imports \<^verbatim>\<open>add\<close>, \<^verbatim>\<open>sub\<close> and \<^verbatim>\<open>differenceInSeconds\<close> from the date-fns library
  (version 2: default imports of \<^verbatim>\<open>date-fns/add\<close> and so on). The library's \<^verbatim>\<open>toInteger\<close>
  rounds towards zero; \<^verbatim>\<open>add\<close> and \<^verbatim>\<open>sub\<close> pass every field of the duration through
  \<^verbatim>\<open>toInteger\<close> before use, and the component only ever passes \<^verbatim>\<open>{seconds: x}\<close>;
  \<^verbatim>\<open>differenceInSeconds\<close> is the difference in milliseconds divided by 1000 and rounded
  towards zero.
\<close>

definition toInteger :: "rat \<Rightarrow> int" where
  "toInteger x = (if x < 0 then \<lceil>x\<rceil> else \<lfloor>x\<rfloor>)"

definition add_seconds :: "Date \<Rightarrow> rat \<Rightarrow> Date" where
  \<comment> \<open>\<^verbatim>\<open>add(date, {seconds: x})\<close>\<close>
  "add_seconds d x = d + toInteger x * 1000"

definition sub_seconds :: "Date \<Rightarrow> rat \<Rightarrow> Date" where
  \<comment> \<open>\<^verbatim>\<open>sub(date, {seconds: x})\<close>\<close>
  "sub_seconds d x = d - toInteger x * 1000"

definition differenceInSeconds :: "Date \<Rightarrow> Date \<Rightarrow> int" where
  "differenceInSeconds dateLeft dateRight = toInteger (of_int (dateLeft - dateRight) / 1000)"

section \<open>Data model\<close>

text \<open>The timeline widget's window, \<^verbatim>\<open>{start: Date, end: Date}\<close>.\<close>

record TimelineWindow =
  w_start :: Date
  w_end :: Date

text \<open>
  Identifiers of timeline items are vis-timeline's \<^verbatim>\<open>IdType = string | number\<close>; the id of a
  media item (\<^verbatim>\<open>ViewMedia.getID()\<close>) is \<^verbatim>\<open>string | null\<close>.
\<close>

datatype IdType = IdStr string | IdNum int

text \<open>JavaScript truthiness of an optional id: absent, the empty string and zero are falsy.\<close>

fun truthyId :: "IdType option \<Rightarrow> bool" where
  "truthyId None = False"
| "truthyId (Some (IdStr s)) = (s \<noteq> [])"
| "truthyId (Some (IdNum n)) = (n \<noteq> 0)"

text \<open>Strict equality \<^verbatim>\<open>===\<close> between a media id (\<^verbatim>\<open>string | null | undefined\<close>) and an item id.\<close>

fun strictEqId :: "string option \<Rightarrow> IdType \<Rightarrow> bool" where
  "strictEqId (Some s) (IdStr t) = (s = t)"
| "strictEqId _ _ = False"

text \<open>
  Modelled from the spec: the media item (\<^verbatim>\<open>view/media\<close>) and its classifier
  (\<^verbatim>\<open>view/media-classifier\<close>) are not among the sources. The spec gives a media item an id,
  a start time, an optional end time, a camera id and a type tag distinguishing events from
  recordings; the fields are named after the getters the component calls.
\<close>

datatype ViewMediaType = Clip | Snapshot | Recording

record ViewMedia =
  getID :: "string option"
  getMediaType :: ViewMediaType
  getStartTime :: "Date option"
  getEndTime :: "Date option"
  getCameraID :: string

definition isEvent :: "ViewMedia \<Rightarrow> bool" where
  "isEvent m = (getMediaType m = Clip \<or> getMediaType m = Snapshot)"

definition isRecording :: "ViewMedia \<Rightarrow> bool" where
  "isRecording m = (getMediaType m = Recording)"

text \<open>
  Modelled from the spec: the query and query-result containers (\<^verbatim>\<open>view/media-queries\<close>,
  \<^verbatim>\<open>view/media-queries-results\<close>, \<^verbatim>\<open>view/media-queries-classifier\<close>) are not among the
  sources. A query container holds a list of opaque queries \<open>'q\<close> and is either an event
  or a recording container. The results are an ordered sequence of media items with an
  optional selected index and the timestamp of the results; \<open>selectResultIfFound\<close> selects
  the first result satisfying the predicate and leaves the selection alone when there is
  none.
\<close>

datatype MediaQueriesKind = EventMediaQueries | RecordingMediaQueries

record 'q MediaQueries =
  queriesKind :: MediaQueriesKind
  getQueries :: "'q list option"

definition areRecordingQueries :: "'q MediaQueries option \<Rightarrow> bool" where
  "areRecordingQueries q =
     (case q of None \<Rightarrow> False | Some m \<Rightarrow> queriesKind m = RecordingMediaQueries)"

record MediaQueriesResults =
  getResults :: "ViewMedia list"
  getSelectedIndex :: "nat option"
  getResultsTimestamp :: "Date option"

definition getSelectedResult :: "MediaQueriesResults \<Rightarrow> ViewMedia option" where
  "getSelectedResult r =
     (case getSelectedIndex r of
        None \<Rightarrow> None
      | Some i \<Rightarrow> if i < length (getResults r) then Some (getResults r ! i) else None)"

definition hasResults :: "MediaQueriesResults \<Rightarrow> bool" where
  "hasResults r = (getResults r \<noteq> [])"

definition hasSelectedResult :: "MediaQueriesResults \<Rightarrow> bool" where
  "hasSelectedResult r = (getSelectedResult r \<noteq> None)"

definition resetSelectedResult :: "MediaQueriesResults \<Rightarrow> MediaQueriesResults" where
  "resetSelectedResult r = r\<lparr> getSelectedIndex := None \<rparr>"

fun findIndex :: "('a \<Rightarrow> bool) \<Rightarrow> 'a list \<Rightarrow> nat option" where
  "findIndex f [] = None"
| "findIndex f (x # xs) =
     (if f x then Some 0 else (case findIndex f xs of None \<Rightarrow> None | Some i \<Rightarrow> Some (Suc i)))"

definition selectResultIfFound ::
  "(ViewMedia \<Rightarrow> bool) \<Rightarrow> MediaQueriesResults \<Rightarrow> MediaQueriesResults" where
  "selectResultIfFound func r =
     (case findIndex func (getResults r) of
        None \<Rightarrow> r
      | Some i \<Rightarrow> r\<lparr> getSelectedIndex := Some i \<rparr>)"

text \<open>
  Modelled from the spec: the view (\<^verbatim>\<open>view/view\<close>) is not among the sources. It carries the
  view name, the query, the query results and a context; of the context the component
  reads and writes \<^verbatim>\<open>timeline.window\<close> and writes \<^verbatim>\<open>mediaViewer.seek\<close>.
\<close>

record 'q View =
  view_name :: string
  query :: "'q MediaQueries option"
  queryResults :: "MediaQueriesResults option"
  context_timeline_window :: "TimelineWindow option"
  context_mediaViewer_seek :: "Date option"

definition selectedMedia :: "'q View \<Rightarrow> ViewMedia option" where
  \<comment> \<open>\<^verbatim>\<open>view.queryResults?.getSelectedResult()\<close>\<close>
  "selectedMedia v = (case queryResults v of None \<Rightarrow> None | Some r \<Rightarrow> getSelectedResult r)"

definition viewHasResults :: "'q View \<Rightarrow> bool" where
  \<comment> \<open>\<^verbatim>\<open>view.queryResults?.hasResults()\<close>, as a condition\<close>
  "viewHasResults v = (case queryResults v of None \<Rightarrow> False | Some r \<Rightarrow> hasResults r)"

text \<open>
  The vis-timeline widget, as far as the component drives it: its window, its selection and
  the custom time bar (the target bar). An item of its dataset
  (\<^verbatim>\<open>FrigateCardTimelineItem\<close>) has an id, a type, a start, an optional end and the media
  item it stands for.
\<close>

record Timeline =
  tl_window :: TimelineWindow
  tl_selection :: "IdType list"
  tl_customTime :: "Date option"

record TimelineItem =
  item_id :: IdType
  item_type :: "string option"
  item_start :: Date
  item_end :: "Date option"
  item_media :: "ViewMedia option"

text \<open>
  The configuration of the timeline. \<^verbatim>\<open>window_seconds\<close> is a whole number of seconds (see
  the note on numbers at the head of the theory).
\<close>

record TimelineCoreConfig =
  window_seconds :: "int option"
  clustering_threshold :: "rat option"
  show_recordings :: "bool option"
  media :: "string option"

text \<open>
  \<^verbatim>\<open>_pointerHeld\<close>: the properties of the pointer-down event (of which the component reads
  the time) and the window at that moment.
\<close>

record PointerHeld =
  ph_time :: Date
  ph_window :: "TimelineWindow option"

text \<open>The properties of a click and of a range change, as delivered by the widget.\<close>

record TimelineEventPropertiesResult =
  p_what :: "string option"
  p_time :: Date
  p_item :: "IdType option"
  p_group :: "IdType option"

record TimelineRangeChange =
  rc_start :: Date
  rc_end :: Date
  byUser :: bool
  event_type :: string
  additionalEvent :: "string option"

text \<open>
  The component \<^verbatim>\<open>FrigateCardTimelineCore\<close>. Collaborators of which only the presence is
  tested (\<^verbatim>\<open>hass\<close>, \<^verbatim>\<open>cameraManager\<close>) are booleans; the camera map is the list of its keys;
  the data source is present with its dataset or absent.
\<close>

record 'q Core =
  hass :: bool
  view :: "'q View option"
  cameras :: "string list option"
  timelineConfig :: "TimelineCoreConfig option"
  mini :: bool
  cameraIDs :: "string list option"
  cameraManager :: bool
  locked :: bool
  targetBarVisible :: bool
  timeline :: "Timeline option"
  timelineSource :: "TimelineItem list option"
  pointerHeld :: "PointerHeld option"
  ignoreClick :: bool

text \<open>The options the click handler passes to \<^verbatim>\<open>createViewForRecordings\<close>.\<close>

record RecordingsOptions =
  ro_targetTime :: "Date option"
  ro_cameraIDs :: "string list option"
  ro_start :: "Date option"
  ro_end :: "Date option"

text \<open>
  What lies outside the component is a parameter: the data source's methods, the camera
  manager's freshness check, the view factories of \<^verbatim>\<open>utils/media-to-view\<close>, the media
  layer's grouping rule, \<^verbatim>\<open>rangesOverlap\<close>, the default of the configuration, the
  (time-zone dependent) \<^verbatim>\<open>startOfHour\<close> and \<^verbatim>\<open>endOfHour\<close>, and \<^verbatim>\<open>String\<close> on an id.
\<close>

record 'q Env =
  default_window_seconds :: int
  isGroupableWith :: "ViewMedia \<Rightarrow> ViewMedia \<Rightarrow> bool"
  rangesOverlap :: "TimelineWindow \<Rightarrow> TimelineWindow \<Rightarrow> bool"
  refresh :: "TimelineWindow \<Rightarrow> TimelineItem list \<Rightarrow> TimelineItem list"
  rewriteEvent :: "string \<Rightarrow> TimelineItem list \<Rightarrow> TimelineItem list"
  getCacheFriendlyEventWindow :: "TimelineWindow \<Rightarrow> TimelineWindow"
  getTimelineEventQueries :: "TimelineWindow \<Rightarrow> 'q list option"
  areMediaQueriesResultsFresh :: "'q list \<Rightarrow> Date \<Rightarrow> bool"
  createViewForEvents ::
    "'q View \<Rightarrow> 'q MediaQueries \<Rightarrow> string option \<Rightarrow> string option \<Rightarrow> 'q View option"
  createViewForRecordings :: "'q View \<Rightarrow> RecordingsOptions \<Rightarrow> 'q View option"
  startOfHour :: "Date \<Rightarrow> Date"
  endOfHour :: "Date \<Rightarrow> Date"
  idToString :: "IdType \<Rightarrow> string"

text \<open>
  What a handler sends outside the component and its widget, in order. Asynchronous calls
  are run to completion where they are awaited.
\<close>

datatype 'q Effect =
    Refresh TimelineWindow
  | RewriteEvent string
  | DispatchChangeEvent "'q View"
  | ThumbnailsOpen
  | ThumbnailsClose
  | StopEventFromActivatingCardWideActions
  | ThrottledSetViewDuringRangeChange Date TimelineRangeChange

section \<open>Window math\<close>

text \<open>\<^verbatim>\<open>_getPrefetchWindow\<close> (the leading underscore of a method name is dropped throughout).\<close>

definition getPrefetchWindow :: "TimelineWindow \<Rightarrow> TimelineWindow" where
  "getPrefetchWindow window =
     (let delta = differenceInSeconds (w_end window) (w_start window)
      in \<lparr> w_start = sub_seconds (w_start window) (of_int delta),
           w_end = add_seconds (w_end window) (of_int delta) \<rparr>)"

definition getConfiguredWindowSeconds :: "'q Env \<Rightarrow> 'q Core \<Rightarrow> int" where
  "getConfiguredWindowSeconds env this =
     (case timelineConfig this of
        None \<Rightarrow> default_window_seconds env
      | Some c \<Rightarrow>
          (case window_seconds c of
             None \<Rightarrow> default_window_seconds env
           | Some s \<Rightarrow> s))"

definition getPerfectWindowFromMedia ::
  "'q Env \<Rightarrow> 'q Core \<Rightarrow> ViewMedia \<Rightarrow> TimelineWindow option" where
  "getPerfectWindowFromMedia env this m =
     (let startTime = getStartTime m; endTime = getEndTime m in
      if isEvent m then
        (let windowSeconds = getConfiguredWindowSeconds env this in
         case startTime of
           None \<Rightarrow> None
         | Some s \<Rightarrow>
             (case endTime of
                Some e \<Rightarrow>
                  if e - s > windowSeconds * 1000
                  then Some \<lparr> w_start = sub_seconds e (of_int windowSeconds), w_end = e \<rparr>
                  else
                    (let gap = of_int windowSeconds - of_int (e - s) / 1000
                     in Some \<lparr> w_start = sub_seconds s (gap / 2),
                               w_end = add_seconds e (gap / 2) \<rparr>)
              | None \<Rightarrow>
                  Some \<lparr> w_start = sub_seconds s (of_int windowSeconds / 2),
                         w_end = add_seconds s (of_int windowSeconds / 2) \<rparr>))
      else if isRecording m then
        (case startTime of
           None \<Rightarrow> None
         | Some s \<Rightarrow>
             (case endTime of
                None \<Rightarrow> None
              | Some e \<Rightarrow> Some \<lparr> w_start = s, w_end = e \<rparr>))
      else None)"

section \<open>Clustering policy\<close>

definition isClustering :: "'q Core \<Rightarrow> bool" where
  "isClustering this =
     (case timelineConfig this of
        None \<Rightarrow> False
      | Some c \<Rightarrow>
          (case clustering_threshold c of
             None \<Rightarrow> False
           | Some t \<Rightarrow> t \<noteq> 0 \<and> t > 0))"

text \<open>The \<^verbatim>\<open>clusterCriteria\<close> callback that \<^verbatim>\<open>_getOptions\<close> hands to the widget.\<close>

definition clusterCriteria ::
  "'q Env \<Rightarrow> 'q Core \<Rightarrow> TimelineItem \<Rightarrow> TimelineItem \<Rightarrow> bool" where
  "clusterCriteria env this first second =
     (if cameras this = None then False
      else
        (let selected = (case view this of None \<Rightarrow> None | Some v \<Rightarrow> selectedMedia v);
             selectedId = (case selected of None \<Rightarrow> None | Some m \<Rightarrow> getID m);
             firstMedia = item_media first;
             secondMedia = item_media second
         in item_type first \<noteq> Some ''background''
            \<and> item_type first = item_type second
            \<and> \<not> strictEqId selectedId (item_id first)
            \<and> \<not> strictEqId selectedId (item_id second)
            \<and> (case firstMedia of
                  None \<Rightarrow> False
                | Some fm \<Rightarrow>
                    (case secondMedia of
                       None \<Rightarrow> False
                     | Some sm \<Rightarrow>
                         isEvent fm \<and> isEvent sm \<and> isGroupableWith env fm sm))))"

section \<open>Target bar and range change\<close>

definition removeTargetBar :: "'q Core \<Rightarrow> 'q Core" where
  "removeTargetBar this =
     (if targetBarVisible this
      then this\<lparr> timeline := map_option (\<lambda>w. w\<lparr> tl_customTime := None \<rparr>) (timeline this),
                 targetBarVisible := False \<rparr>
      else this)"

definition setTargetBarAppropriately :: "'q Core \<Rightarrow> Date \<Rightarrow> 'q Core" where
  "setTargetBarAppropriately this targetTime =
     (case timeline this of
        None \<Rightarrow> this
      | Some widget \<Rightarrow>
          (let targetBarOn =
                 (\<not> locked this
                  \<or> (mini this
                     \<and> list_ex
                         (\<lambda>i. case (case timelineSource this of
                                       None \<Rightarrow> None
                                     | Some dataset \<Rightarrow> find (\<lambda>it. item_id it = i) dataset) of
                                 None \<Rightarrow> False
                               | Some it \<Rightarrow>
                                   (case item_end it of
                                      None \<Rightarrow> False
                                    | Some e \<Rightarrow>
                                        item_start it \<noteq> 0 \<and> e \<noteq> 0
                                        \<and> targetTime \<ge> item_start it \<and> targetTime \<le> e))
                         (tl_selection widget)))
           in if targetBarOn
              then this\<lparr> timeline := Some (widget\<lparr> tl_customTime := Some targetTime \<rparr>),
                         targetBarVisible := True \<rparr>
              else removeTargetBar this))"

text \<open>
  \<^verbatim>\<open>_timelineRangeChangeHandler\<close>. The call of the throttled
  \<^verbatim>\<open>_setViewDuringRangeChange\<close> is recorded with the target time it is given.
\<close>

definition timelineRangeChangeHandler ::
  "'q Core \<Rightarrow> TimelineRangeChange \<Rightarrow> 'q Core \<times> 'q Effect list" where
  "timelineRangeChangeHandler this0 properties =
     (let this = (if pointerHeld this0 \<noteq> None then this0\<lparr> ignoreClick := True \<rparr> else this0)
      in if timeline this \<noteq> None
            \<and> byUser properties
            \<and> event_type properties \<noteq> ''wheel''
            \<and> additionalEvent properties \<noteq> Some ''pinchin''
            \<and> additionalEvent properties \<noteq> Some ''pinchout''
         then
           (let targetTime =
                  (case pointerHeld this of
                     None \<Rightarrow> rc_end properties
                   | Some held \<Rightarrow>
                       (case ph_window held of
                          None \<Rightarrow> rc_end properties
                        | Some window \<Rightarrow>
                            add_seconds (rc_start properties)
                              (of_int (ph_time held - w_start window) / 1000)));
                this' = (if pointerHeld this \<noteq> None
                         then setTargetBarAppropriately this targetTime else this)
            in (this', [ThrottledSetViewDuringRangeChange targetTime properties]))
         else (this, []))"

section \<open>Event queries and views\<close>

definition getAllCameraIDs :: "'q Core \<Rightarrow> string list" where
  "getAllCameraIDs this = (case cameras this of None \<Rightarrow> [] | Some cs \<Rightarrow> cs)"

definition createEventMediaQuerys ::
  "'q Env \<Rightarrow> 'q Core \<Rightarrow> TimelineWindow option \<Rightarrow> 'q MediaQueries option" where
  "createEventMediaQuerys env this window =
     (case timeline this of
        None \<Rightarrow> None
      | Some widget \<Rightarrow>
          (case timelineSource this of
             None \<Rightarrow> None
           | Some dataset \<Rightarrow>
               (let cacheFriendlyWindow =
                      getCacheFriendlyEventWindow env
                        (case window of None \<Rightarrow> tl_window widget | Some w \<Rightarrow> w)
                in case getTimelineEventQueries env cacheFriendlyWindow of
                     None \<Rightarrow> None
                   | Some eventQueries \<Rightarrow>
                       Some \<lparr> queriesKind = EventMediaQueries,
                              getQueries = Some eventQueries \<rparr>)))"

definition selectInView :: "(ViewMedia \<Rightarrow> bool) \<Rightarrow> 'q View \<Rightarrow> 'q View" where
  \<comment> \<open>\<^verbatim>\<open>view.queryResults?.selectResultIfFound(func)\<close>, which selects in place\<close>
  "selectInView func v = v\<lparr> queryResults := map_option (selectResultIfFound func) (queryResults v) \<rparr>"

definition createViewWithEventMediaQuery ::
  "'q Env \<Rightarrow> 'q Core \<Rightarrow> 'q MediaQueries option \<Rightarrow> string option \<Rightarrow> IdType option
   \<Rightarrow> 'q View option" where
  "createViewWithEventMediaQuery env this q targetView selectedItem =
     (if \<not> hass this \<or> \<not> cameraManager this \<or> cameras this = None then None
      else
        (case view this of
           None \<Rightarrow> None
         | Some current \<Rightarrow>
             (case q of
                None \<Rightarrow> None
              | Some qs \<Rightarrow>
                  (case createViewForEvents env current qs targetView
                          (case timelineConfig this of None \<Rightarrow> None | Some c \<Rightarrow> media c) of
                     None \<Rightarrow> None
                   | Some v \<Rightarrow>
                       (if truthyId selectedItem
                        then Some (selectInView
                                     (\<lambda>m. cameras this \<noteq> None
                                          \<and> (case selectedItem of
                                                None \<Rightarrow> False
                                              | Some sel \<Rightarrow> strictEqId (getID m) sel)) v)
                        else
                          (case selectedMedia current of
                             None \<Rightarrow> Some v
                           | Some currentlySelectedResult \<Rightarrow>
                               Some (selectInView
                                       (\<lambda>m. getID m = getID currentlySelectedResult) v)))))))"

definition alreadyHasAcceptableMediaQuery ::
  "'q Env \<Rightarrow> 'q Core \<Rightarrow> 'q MediaQueries \<Rightarrow> bool" where
  "alreadyHasAcceptableMediaQuery env this freshMediaQuery =
     (let currentQueries =
            (case view this of
               None \<Rightarrow> None
             | Some v \<Rightarrow> (case query v of None \<Rightarrow> None | Some q \<Rightarrow> getQueries q));
          currentResultTimestamp =
            (case view this of
               None \<Rightarrow> None
             | Some v \<Rightarrow>
                 (case queryResults v of None \<Rightarrow> None | Some r \<Rightarrow> getResultsTimestamp r))
      in cameraManager this
         \<and> (case currentQueries of
               None \<Rightarrow> False
             | Some cq \<Rightarrow>
                 (case currentResultTimestamp of
                    None \<Rightarrow> False
                  | Some ts \<Rightarrow>
                      currentQueries = getQueries freshMediaQuery
                      \<and> areMediaQueriesResultsFresh env cq ts)))"

text \<open>
  \<^verbatim>\<open>_setWindowInContext\<close> builds the context \<^verbatim>\<open>{timeline: {...view.context.timeline, window}}\<close>;
  the model returns its \<^verbatim>\<open>timeline.window\<close>. \<open>mergeInContext\<close> merges it into a view.
\<close>

definition setWindowInContext :: "'q Core \<Rightarrow> TimelineWindow option \<Rightarrow> TimelineWindow option" where
  "setWindowInContext this window =
     (let newWindow =
            (case window of
               Some w \<Rightarrow> Some w
             | None \<Rightarrow> map_option tl_window (timeline this))
      in case newWindow of
           Some w \<Rightarrow> Some w
         | None \<Rightarrow> (case view this of None \<Rightarrow> None | Some v \<Rightarrow> context_timeline_window v))"

definition mergeInContext_timeline :: "TimelineWindow option \<Rightarrow> 'q View \<Rightarrow> 'q View" where
  "mergeInContext_timeline w v =
     (case w of None \<Rightarrow> v | Some x \<Rightarrow> v\<lparr> context_timeline_window := Some x \<rparr>)"

definition mergeInContext_seek :: "Date \<Rightarrow> 'q View \<Rightarrow> 'q View" where
  "mergeInContext_seek t v = v\<lparr> context_mediaViewer_seek := Some t \<rparr>"

section \<open>Synchronising the widget with the view\<close>

text \<open>JavaScript truthiness of an optional string: absent and the empty string are falsy.\<close>

definition truthyStr :: "string option \<Rightarrow> bool" where
  "truthyStr x = (case x of None \<Rightarrow> False | Some s \<Rightarrow> s \<noteq> [])"

text \<open>
  The calls the component makes on the widget and on the data source:
  \<^verbatim>\<open>_timeline?.setSelection(ids, ...)\<close>, \<^verbatim>\<open>_timeline.setWindow(start, end)\<close>,
  \<^verbatim>\<open>_timelineSource?.refresh(hass, window)\<close> and \<^verbatim>\<open>_timelineSource?.rewriteEvent(id)\<close>.
\<close>

definition timeline_setSelection :: "IdType list \<Rightarrow> 'q Core \<Rightarrow> 'q Core" where
  "timeline_setSelection ids this =
     this\<lparr> timeline := map_option (\<lambda>w. w\<lparr> tl_selection := ids \<rparr>) (timeline this) \<rparr>"

definition timeline_setWindow :: "TimelineWindow \<Rightarrow> 'q Core \<Rightarrow> 'q Core" where
  "timeline_setWindow window this =
     this\<lparr> timeline := map_option (\<lambda>w. w\<lparr> tl_window := window \<rparr>) (timeline this) \<rparr>"

definition source_refresh :: "'q Env \<Rightarrow> TimelineWindow \<Rightarrow> 'q Core \<Rightarrow> 'q Core" where
  "source_refresh env window this =
     this\<lparr> timelineSource := map_option (refresh env window) (timelineSource this) \<rparr>"

definition source_rewriteEvent :: "'q Env \<Rightarrow> string \<Rightarrow> 'q Core \<Rightarrow> 'q Core" where
  "source_rewriteEvent env i this =
     this\<lparr> timelineSource := map_option (rewriteEvent env i) (timelineSource this) \<rparr>"

text \<open>The window \<^verbatim>\<open>_updateTimelineFromView\<close> wants to show (its local \<^verbatim>\<open>desiredWindow\<close>).\<close>

definition desiredWindowOf ::
  "'q Env \<Rightarrow> 'q Core \<Rightarrow> 'q View \<Rightarrow> TimelineWindow \<Rightarrow> TimelineWindow" where
  "desiredWindowOf env this v timelineWindow =
     (case context_timeline_window v of
        Some w \<Rightarrow> w
      | None \<Rightarrow>
          (case selectedMedia v of
             None \<Rightarrow> timelineWindow
           | Some m \<Rightarrow>
               (case getStartTime m of
                  None \<Rightarrow> timelineWindow
                | Some s \<Rightarrow>
                    (case getEndTime m of
                       None \<Rightarrow> timelineWindow
                     | Some e \<Rightarrow>
                         if \<not> rangesOverlap env \<lparr> w_start = s, w_end = e \<rparr> timelineWindow
                         then (case getPerfectWindowFromMedia env this m of
                                 None \<Rightarrow> timelineWindow
                               | Some perfectMediaWindow \<Rightarrow> perfectMediaWindow)
                         else timelineWindow))))"

text \<open>
  \<^verbatim>\<open>_updateTimelineFromView\<close>, in the order of the source. After the guard on the
  collaborators and the choice of the desired window, its first half brings the data
  source and the widget in line with the view (refresh, rewrite of the selected event,
  selection, window); it is \<open>applyViewToTimeline\<close> here. Its second half decides
  whether to run a fresh event query and to dispatch the view that results; it is
  \<open>dispatchFreshMediaQuery\<close> here.
\<close>

definition applyViewToTimeline ::
  "'q Env \<Rightarrow> 'q Core \<Rightarrow> 'q View \<Rightarrow> TimelineWindow \<Rightarrow> TimelineWindow
   \<Rightarrow> 'q Core \<times> 'q Effect list" where
  "applyViewToTimeline env this v timelineWindow desiredWindow =
     (let m = selectedMedia v;
          prefetchedWindow = getPrefetchWindow desiredWindow;
          held = (pointerHeld this \<noteq> None);
          this1 = (if \<not> held then source_refresh env prefetchedWindow this else this);
          eff1 = (if \<not> held then [Refresh prefetchedWindow] else []);
          rewriteId =
            (if \<not> held \<and> isClustering this1
             then (case m of
                     None \<Rightarrow> None
                   | Some x \<Rightarrow> if truthyStr (getID x) then getID x else None)
             else None);
          this2 = (case rewriteId of
                     None \<Rightarrow> this1
                   | Some i \<Rightarrow> source_rewriteEvent env i this1);
          eff2 = (case rewriteId of None \<Rightarrow> [] | Some i \<Rightarrow> [RewriteEvent i]);
          desiredId = (case m of
                         None \<Rightarrow> None
                       | Some x \<Rightarrow> if isEvent x then getID x else None);
          this3 = (case desiredId of
                     None \<Rightarrow> this2
                   | Some i \<Rightarrow>
                       if i \<noteq> [] then timeline_setSelection [IdStr i] this2 else this2);
          this4 = (if \<not> held \<and> desiredWindow \<noteq> timelineWindow
                   then timeline_setWindow desiredWindow this3 else this3)
      in (this4, eff1 @ eff2))"

definition dispatchFreshMediaQuery ::
  "'q Env \<Rightarrow> 'q Core \<Rightarrow> 'q View \<Rightarrow> TimelineWindow \<Rightarrow> 'q Effect list" where
  "dispatchFreshMediaQuery env this v desiredWindow =
     (let freshMediaQuery = createEventMediaQuerys env this (Some desiredWindow)
      in case freshMediaQuery of
           None \<Rightarrow> []
         | Some fresh \<Rightarrow>
             if \<not> mini this \<and> \<not> areRecordingQueries (query v)
                \<and> \<not> alreadyHasAcceptableMediaQuery env this fresh
             then
               (case createViewWithEventMediaQuery env this (Some fresh) None None of
                  None \<Rightarrow> []
                | Some newView \<Rightarrow>
                    [DispatchChangeEvent
                       (mergeInContext_timeline
                          (setWindowInContext this (Some desiredWindow)) newView)])
             else [])"

definition updateTimelineFromView :: "'q Env \<Rightarrow> 'q Core \<Rightarrow> 'q Core \<times> 'q Effect list" where
  "updateTimelineFromView env this =
     (case view this of
        None \<Rightarrow> (this, [])
      | Some v \<Rightarrow>
          (case timeline this of
             None \<Rightarrow> (this, [])
           | Some widget \<Rightarrow>
               if \<not> hass this \<or> cameras this = None \<or> timelineConfig this = None
                  \<or> timelineSource this = None
               then (this, [])
               else
                 (let timelineWindow = tl_window widget;
                      desiredWindow = desiredWindowOf env this v timelineWindow;
                      applied = applyViewToTimeline env this v timelineWindow desiredWindow
                  in (fst applied,
                      snd applied @ dispatchFreshMediaQuery env (fst applied) v desiredWindow))))"

section \<open>Click handling\<close>

definition timelineClickHandler ::
  "'q Env \<Rightarrow> 'q Core \<Rightarrow> TimelineEventPropertiesResult \<Rightarrow> 'q Core \<times> 'q Effect list" where
  "timelineClickHandler env this properties =
     (let stop =
            (if ignoreClick this
                \<or> (case p_what properties of
                      None \<Rightarrow> False
                    | Some w \<Rightarrow> w \<in> set [''item'', ''background'', ''group-label'', ''axis''])
             then [StopEventFromActivatingCardWideActions] else [])
      in
        case view this of
          None \<Rightarrow> (this, stop)
        | Some current \<Rightarrow>
            (case timeline this of
               None \<Rightarrow> (this, stop)
             | Some widget \<Rightarrow>
                 (case p_what properties of
                    None \<Rightarrow> (this, stop)
                  | Some what \<Rightarrow>
                      if ignoreClick this \<or> \<not> hass this \<or> cameras this = None
                         \<or> \<not> cameraManager this \<or> what = []
                      then (this, stop)
                      else
                        (let showRecordings =
                               (case timelineConfig this of
                                  None \<Rightarrow> False
                                | Some c \<Rightarrow> show_recordings c = Some True);
                             newView =
                               (if showRecordings \<and> what \<in> set [''background'', ''group-label'']
                                then createViewForRecordings env current
                                       \<lparr> ro_targetTime =
                                           Some (if what = ''background'' then p_time properties
                                                 else w_end (tl_window widget)),
                                         ro_cameraIDs =
                                           (case p_group properties of
                                              None \<Rightarrow> None
                                            | Some g \<Rightarrow>
                                                if truthyId (p_group properties)
                                                then Some [idToString env g] else None),
                                         ro_start = None,
                                         ro_end = None \<rparr>
                                else if showRecordings \<and> what = ''axis''
                                then createViewForRecordings env current
                                       \<lparr> ro_targetTime = Some (p_time properties),
                                         ro_cameraIDs = Some (getAllCameraIDs this),
                                         ro_start = Some (startOfHour env (p_time properties)),
                                         ro_end = Some (endOfHour env (p_time properties)) \<rparr>
                                else
                                  (case p_item properties of
                                     None \<Rightarrow> None
                                   | Some clicked \<Rightarrow>
                                       if truthyId (p_item properties) \<and> what = ''item''
                                       then
                                         (let newResults =
                                                map_option
                                                  (\<lambda>r. selectResultIfFound
                                                          (\<lambda>m. cameras this \<noteq> None
                                                               \<and> strictEqId (getID m) clicked)
                                                          (resetSelectedResult r))
                                                  (queryResults current);
                                              found =
                                                (case newResults of
                                                   None \<Rightarrow> False
                                                 | Some r \<Rightarrow> hasSelectedResult r);
                                              candidate =
                                                (if \<not> found
                                                 then
                                                   (case createViewWithEventMediaQuery env this
                                                           (createEventMediaQuerys env this None)
                                                           (Some ''media'') (Some clicked) of
                                                      None \<Rightarrow> None
                                                    | Some fullEventView \<Rightarrow>
                                                        if viewHasResults fullEventView
                                                        then Some fullEventView else None)
                                                 else Some (current\<lparr> queryResults := newResults \<rparr>))
                                          in case candidate of
                                               None \<Rightarrow> None
                                             | Some c \<Rightarrow>
                                                 if viewHasResults c
                                                 then Some (mergeInContext_seek
                                                              (p_time properties) c)
                                                 else Some c)
                                       else None));
                             isTimeline = (view_name current = ''timeline'');
                             effects =
                               (case newView of
                                  Some nv \<Rightarrow>
                                    DispatchChangeEvent nv
                                      # (if isTimeline then [ThumbnailsOpen] else [])
                                | None \<Rightarrow> if isTimeline then [ThumbnailsClose] else [])
                         in (this\<lparr> ignoreClick := False \<rparr>, stop @ effects)))))"

text \<open>
  The pointer handlers that \<^verbatim>\<open>updated\<close> registers on the widget (\<^verbatim>\<open>mouseDown\<close> and
  \<^verbatim>\<open>mouseUp\<close>).
\<close>

definition mouseDownHandler :: "'q Core \<Rightarrow> TimelineEventPropertiesResult \<Rightarrow> 'q Core" where
  "mouseDownHandler this ev =
     this\<lparr> pointerHeld :=
             Some \<lparr> ph_time = p_time ev, ph_window = map_option tl_window (timeline this) \<rparr>,
           ignoreClick := False \<rparr>"

definition mouseUpHandler :: "'q Core \<Rightarrow> 'q Core" where
  "mouseUpHandler this = removeTargetBar (this\<lparr> pointerHeld := None \<rparr>)"

section \<open>Concrete inputs\<close>

text \<open>
  A concrete set of collaborators and a concrete component, on which the theorems below
  are evaluated: a configured window of 600 seconds, clustering on, a data source that
  answers every window with one query, and a view factory that returns the current view
  with the new query and three results, the first of them selected.
\<close>

definition demo_media :: "string \<Rightarrow> ViewMediaType \<Rightarrow> Date \<Rightarrow> Date \<Rightarrow> ViewMedia" where
  "demo_media i ty s e =
     \<lparr> getID = Some i, getMediaType = ty, getStartTime = Some s, getEndTime = Some e,
       getCameraID = ''front'' \<rparr>"

definition demo_env :: "nat Env" where
  "demo_env =
     \<lparr> default_window_seconds = 3600,
       isGroupableWith = (\<lambda>a b. True),
       rangesOverlap = (\<lambda>a b. w_start a \<le> w_end b \<and> w_start b \<le> w_end a),
       refresh = (\<lambda>w d. d),
       rewriteEvent = (\<lambda>i d. d),
       getCacheFriendlyEventWindow = (\<lambda>w. w),
       getTimelineEventQueries = (\<lambda>w. Some [7]),
       areMediaQueriesResultsFresh = (\<lambda>qs ts. True),
       createViewForEvents =
         (\<lambda>v q targetView mediaType.
            Some (v\<lparr> query := Some q,
                     queryResults :=
                       Some \<lparr> getResults =
                                [demo_media ''e2'' Clip 11000 12000,
                                 demo_media ''e1'' Clip 5000 9000,
                                 demo_media ''e0'' Clip 1000 3000],
                              getSelectedIndex = Some 0,
                              getResultsTimestamp = Some 20000 \<rparr> \<rparr>)),
       createViewForRecordings = (\<lambda>v opts. None),
       startOfHour = (\<lambda>t. t - t mod 3600000),
       endOfHour = (\<lambda>t. t - t mod 3600000 + 3599999),
       idToString = (\<lambda>i. case i of IdStr s \<Rightarrow> s | IdNum n \<Rightarrow> ''0'') \<rparr>"

definition demo_config :: TimelineCoreConfig where
  "demo_config =
     \<lparr> window_seconds = Some 600, clustering_threshold = Some 3,
       show_recordings = Some True, media = None \<rparr>"

definition demo_view :: "nat View" where
  "demo_view =
     \<lparr> view_name = ''timeline'',
       query = Some \<lparr> queriesKind = EventMediaQueries, getQueries = Some [7] \<rparr>,
       queryResults =
         Some \<lparr> getResults = [demo_media ''e0'' Clip 1000 3000, demo_media ''e1'' Clip 5000 9000],
                getSelectedIndex = Some 1,
                getResultsTimestamp = Some 10000 \<rparr>,
       context_timeline_window = None,
       context_mediaViewer_seek = None \<rparr>"

definition demo_core :: "nat Core" where
  "demo_core =
     \<lparr> hass = True,
       view = Some demo_view,
       cameras = Some [''front''],
       timelineConfig = Some demo_config,
       mini = False,
       cameraIDs = None,
       cameraManager = True,
       locked = False,
       targetBarVisible = False,
       timeline = Some \<lparr> tl_window = \<lparr> w_start = 0, w_end = 10000 \<rparr>, tl_selection = [],
                         tl_customTime = None \<rparr>,
       timelineSource = Some [],
       pointerHeld = None,
       ignoreClick = False \<rparr>"

definition demo_item :: "string \<Rightarrow> ViewMedia \<Rightarrow> TimelineItem" where
  "demo_item i m =
     \<lparr> item_id = IdStr i, item_type = Some ''range'', item_start = 0, item_end = None,
       item_media = Some m \<rparr>"

definition demo_held :: "Date \<Rightarrow> PointerHeld" where
  "demo_held t = \<lparr> ph_time = t, ph_window = Some \<lparr> w_start = 0, w_end = 10000 \<rparr> \<rparr>"

definition demo_pan :: "Date \<Rightarrow> Date \<Rightarrow> TimelineRangeChange" where
  "demo_pan s e =
     \<lparr> rc_start = s, rc_end = e, byUser = True, event_type = ''panmove'',
       additionalEvent = Some ''panright'' \<rparr>"

definition demo_click :: TimelineEventPropertiesResult where
  "demo_click =
     \<lparr> p_what = Some ''item'', p_time = 6000, p_item = Some (IdStr ''e1''), p_group = None \<rparr>"

section \<open>Helper facts\<close>

lemma toInteger_of_int: "toInteger (of_int k) = k"
  by (simp add: toInteger_def)

lemma whole_seconds: "1000 * (x div 1000) = x - x mod (1000::int)"
  by (simp add: minus_mod_eq_mult_div)

lemma differenceInSeconds_nonneg:
  assumes "r \<le> l"
  shows "differenceInSeconds l r = (l - r) div 1000"
proof -
  have "\<not> (of_int (l - r) / 1000 < (0::rat))" using assms by simp
  moreover have "\<lfloor>(of_int (l - r) :: rat) / 1000\<rfloor> = (l - r) div 1000"
    using floor_divide_of_int_eq [of "l - r" 1000, where ?'a = rat] by simp
  ultimately show ?thesis by (simp add: differenceInSeconds_def toInteger_def)
qed

lemma getPrefetchWindow_nonneg:
  "w_start w \<le> w_end w \<Longrightarrow>
   getPrefetchWindow w =
     \<lparr> w_start = w_start w - 1000 * ((w_end w - w_start w) div 1000),
       w_end = w_end w + 1000 * ((w_end w - w_start w) div 1000) \<rparr>"
  by (simp add: getPrefetchWindow_def differenceInSeconds_nonneg toInteger_of_int
      add_seconds_def sub_seconds_def Let_def)





lemma demo_selected: "selectedMedia demo_view = Some (demo_media ''e1'' Clip 5000 9000)"
  by (simp add: selectedMedia_def demo_view_def getSelectedResult_def)

lemma toInteger_whole_seconds:
  assumes "d mod 1000 = 0"
  shows "1000 * toInteger (rat_of_int d / 1000) = d"
proof -
  from assms obtain k where k: "d = 1000 * k" by (metis mod_eq_0_iff_dvd dvd_def)
  then have "rat_of_int d / 1000 = of_int k" by simp
  then show ?thesis using k by (simp add: toInteger_of_int)
qed

lemma rangeChange_effects:
  assumes "timeline this \<noteq> None" and "byUser p" and "event_type p \<noteq> ''wheel''"
    and "additionalEvent p \<noteq> Some ''pinchin''" and "additionalEvent p \<noteq> Some ''pinchout''"
  shows "snd (timelineRangeChangeHandler this p) =
           [ThrottledSetViewDuringRangeChange
              (case pointerHeld this of
                 None \<Rightarrow> rc_end p
               | Some held \<Rightarrow>
                   (case ph_window held of
                      None \<Rightarrow> rc_end p
                    | Some w0 \<Rightarrow>
                        rc_start p
                          + 1000 * toInteger (rat_of_int (ph_time held - w_start w0) / 1000)))
              p]"
  using assms
  by (simp add: timelineRangeChangeHandler_def Let_def add_seconds_def split: option.splits)

lemma demo_pan_admitted:
  "timeline (demo_core\<lparr> pointerHeld := h \<rparr>) \<noteq> None \<and> byUser (demo_pan s e)
   \<and> event_type (demo_pan s e) \<noteq> ''wheel''
   \<and> additionalEvent (demo_pan s e) \<noteq> Some ''pinchin''
   \<and> additionalEvent (demo_pan s e) \<noteq> Some ''pinchout''"
  by (simp add: demo_core_def demo_pan_def)

lemma findIndex_found:
  "\<exists>x\<in>set xs. f x \<Longrightarrow> \<exists>i. findIndex f xs = Some i \<and> i < length xs \<and> f (xs ! i)"
proof (induction xs)
  case Nil
  then show ?case by simp
next
  case (Cons a xs)
  show ?case
  proof (cases "f a")
    case True
    then show ?thesis by simp
  next
    case False
    with Cons.prems have "\<exists>x\<in>set xs. f x" by auto
    from Cons.IH [OF this] obtain i
      where "findIndex f xs = Some i" and "i < length xs" and "f (xs ! i)" by blast
    with False show ?thesis by simp
  qed
qed

lemma getResults_selectResultIfFound:
  "getResults (selectResultIfFound f r) = getResults r"
  by (simp add: selectResultIfFound_def split: option.splits)

lemma selectResultIfFound_selects:
  assumes "\<exists>m\<in>set (getResults r). f m"
  shows "\<exists>m. getSelectedResult (selectResultIfFound f r) = Some m \<and> f m
             \<and> m \<in> set (getResults r)"
proof -
  from findIndex_found [OF assms] obtain i
    where "findIndex f (getResults r) = Some i" and "i < length (getResults r)"
      and "f (getResults r ! i)" by blast
  then show ?thesis by (simp add: selectResultIfFound_def getSelectedResult_def)
qed

lemma createViewWithEventMediaQuery_persisting:
  assumes "view this = Some current" and "selectedMedia current = Some sel"
    and "createViewWithEventMediaQuery env this q targetView None = Some newView"
  shows "\<exists>qs v. q = Some qs
           \<and> createViewForEvents env current qs targetView
                (case timelineConfig this of None \<Rightarrow> None | Some c \<Rightarrow> media c) = Some v
           \<and> newView = selectInView (\<lambda>m. getID m = getID sel) v"
  using assms
  by (auto simp add: createViewWithEventMediaQuery_def split: if_splits option.splits)

lemma update_skipped:
  assumes "\<not> hass this \<or> cameras this = None \<or> view this = None \<or> timelineConfig this = None
           \<or> timelineSource this = None \<or> timeline this = None"
  shows "updateTimelineFromView env this = (this, [])"
  using assms by (auto simp add: updateTimelineFromView_def split: option.splits)

lemma update_runs:
  assumes "view this = Some v" and "timeline this = Some widget"
    and "\<not> (\<not> hass this \<or> cameras this = None \<or> timelineConfig this = None
            \<or> timelineSource this = None)"
  shows "updateTimelineFromView env this =
           (fst (applyViewToTimeline env this v (tl_window widget)
                   (desiredWindowOf env this v (tl_window widget))),
            snd (applyViewToTimeline env this v (tl_window widget)
                   (desiredWindowOf env this v (tl_window widget)))
              @ dispatchFreshMediaQuery env
                  (fst (applyViewToTimeline env this v (tl_window widget)
                          (desiredWindowOf env this v (tl_window widget))))
                  v (desiredWindowOf env this v (tl_window widget)))"
  using assms by (auto simp add: updateTimelineFromView_def Let_def)

lemma apply_held:
  assumes "pointerHeld this \<noteq> None"
  shows "applyViewToTimeline env this v tw dw =
           ((case selectedMedia v of
               None \<Rightarrow> this
             | Some m \<Rightarrow>
                 if isEvent m
                 then (case getID m of
                         None \<Rightarrow> this
                       | Some i \<Rightarrow> if i \<noteq> [] then timeline_setSelection [IdStr i] this else this)
                 else this), [])"
  using assms by (auto simp add: applyViewToTimeline_def Let_def split: option.splits)

lemma apply_preserves:
  "view (fst (applyViewToTimeline env this v tw dw)) = view this
   \<and> mini (fst (applyViewToTimeline env this v tw dw)) = mini this
   \<and> hass (fst (applyViewToTimeline env this v tw dw)) = hass this
   \<and> cameras (fst (applyViewToTimeline env this v tw dw)) = cameras this
   \<and> cameraManager (fst (applyViewToTimeline env this v tw dw)) = cameraManager this
   \<and> (timeline (fst (applyViewToTimeline env this v tw dw)) = None \<longleftrightarrow> timeline this = None)
   \<and> (timelineSource (fst (applyViewToTimeline env this v tw dw)) = None
        \<longleftrightarrow> timelineSource this = None)"
  by (simp add: applyViewToTimeline_def Let_def timeline_setSelection_def
      timeline_setWindow_def source_refresh_def source_rewriteEvent_def split: option.splits)

lemma apply_effects:
  "DispatchChangeEvent nv \<notin> set (snd (applyViewToTimeline env this v tw dw))"
  by (simp add: applyViewToTimeline_def Let_def split: option.splits)

lemma createEventMediaQuerys_presence:
  assumes "timeline a = None \<longleftrightarrow> timeline b = None"
    and "timelineSource a = None \<longleftrightarrow> timelineSource b = None"
  shows "createEventMediaQuerys env a (Some w) = createEventMediaQuerys env b (Some w)"
  using assms by (auto simp add: createEventMediaQuerys_def split: option.splits)

lemma alreadyHasAcceptableMediaQuery_reads:
  assumes "view a = view b" and "cameraManager a = cameraManager b"
  shows "alreadyHasAcceptableMediaQuery env a f = alreadyHasAcceptableMediaQuery env b f"
  using assms by (simp add: alreadyHasAcceptableMediaQuery_def)

lemma dispatchFreshMediaQuery_nothing:
  assumes "view this = Some v"
    and "mini this \<or> areRecordingQueries (query v)
         \<or> createEventMediaQuerys env this (Some dw) = None
         \<or> (\<exists>fresh current qs r ts.
               createEventMediaQuerys env this (Some dw) = Some fresh
               \<and> query v = Some current \<and> getQueries current = Some qs
               \<and> getQueries fresh = Some qs
               \<and> queryResults v = Some r \<and> getResultsTimestamp r = Some ts
               \<and> areMediaQueriesResultsFresh env qs ts)"
  shows "dispatchFreshMediaQuery env this v dw = []"
proof (cases "cameraManager this")
  case True
  with assms show ?thesis
    by (auto simp add: dispatchFreshMediaQuery_def alreadyHasAcceptableMediaQuery_def
        split: option.splits)
next
  case False
  then have "createViewWithEventMediaQuery env this q None None = None" for q
    by (simp add: createViewWithEventMediaQuery_def)
  then show ?thesis
    by (simp add: dispatchFreshMediaQuery_def split: option.splits)
qed

lemmas demo_defs =
  demo_core_def demo_view_def demo_env_def demo_config_def demo_media_def demo_held_def
  demo_click_def demo_pan_def

lemmas sync_defs =
  updateTimelineFromView_def applyViewToTimeline_def dispatchFreshMediaQuery_def
  desiredWindowOf_def selectedMedia_def getSelectedResult_def isEvent_def isClustering_def
  truthyStr_def timeline_setSelection_def timeline_setWindow_def source_refresh_def
  source_rewriteEvent_def createEventMediaQuerys_def alreadyHasAcceptableMediaQuery_def
  areRecordingQueries_def createViewWithEventMediaQuery_def selectInView_def
  selectResultIfFound_def setWindowInContext_def mergeInContext_timeline_def

section \<open>Claims about the window math\<close>

text \<open>
  C4, as stated, at a window one and a half seconds long: the claim asks for
  \<open>{start - 1500, end + 1500}\<close>, of length 4500; the code widens by the whole seconds of the
  length only and returns \<open>{-1000, 2500}\<close>, of length 3500.
\<close>

theorem C4_counterexample:
  "w_start \<lparr> w_start = 0, w_end = 1500 \<rparr> \<le> w_end \<lparr> w_start = 0, w_end = 1500 \<rparr>
   \<and> getPrefetchWindow \<lparr> w_start = 0, w_end = 1500 \<rparr> = \<lparr> w_start = - 1000, w_end = 2500 \<rparr>
   \<and> getPrefetchWindow \<lparr> w_start = 0, w_end = 1500 \<rparr>
       \<noteq> \<lparr> w_start = 0 - (1500 - 0), w_end = 1500 + (1500 - 0) \<rparr>
   \<and> w_end (getPrefetchWindow \<lparr> w_start = 0, w_end = 1500 \<rparr>)
       - w_start (getPrefetchWindow \<lparr> w_start = 0, w_end = 1500 \<rparr>) \<noteq> 3 * (1500 - 0)"
  by (simp add: getPrefetchWindow_nonneg)

text \<open>
  C4, amended: for every window with start \<open>\<le>\<close> end, of length \<open>len\<close> milliseconds,
  \<open>getPrefetchWindow\<close> returns the window widened on each side by the whole seconds of
  \<open>len\<close> (\<open>len\<close> rounded down to a multiple of 1000 ms). The result is centred on the
  window; its length is more than \<open>3 * len - 2000\<close> and at most \<open>3 * len\<close>; and it is
  exactly \<open>{start - len, end + len}\<close>, of length \<open>3 * len\<close>, when \<open>len\<close> is a whole number
  of seconds. The function is pure: it reads its argument only.
\<close>

theorem C4_prefetch_window:
  assumes "w_start w \<le> w_end w"
  shows "getPrefetchWindow w =
           \<lparr> w_start = w_start w - 1000 * ((w_end w - w_start w) div 1000),
             w_end = w_end w + 1000 * ((w_end w - w_start w) div 1000) \<rparr>
         \<and> w_start w - w_start (getPrefetchWindow w) = w_end (getPrefetchWindow w) - w_end w
         \<and> 3 * (w_end w - w_start w) - 2000
              < w_end (getPrefetchWindow w) - w_start (getPrefetchWindow w)
         \<and> w_end (getPrefetchWindow w) - w_start (getPrefetchWindow w)
              \<le> 3 * (w_end w - w_start w)
         \<and> ((w_end w - w_start w) mod 1000 = 0 \<longrightarrow>
              getPrefetchWindow w =
                \<lparr> w_start = w_start w - (w_end w - w_start w),
                  w_end = w_end w + (w_end w - w_start w) \<rparr>
              \<and> w_end (getPrefetchWindow w) - w_start (getPrefetchWindow w)
                  = 3 * (w_end w - w_start w))"
proof -
  define len where "len = w_end w - w_start w"
  have eq: "getPrefetchWindow w =
      \<lparr> w_start = w_start w - (len - len mod 1000), w_end = w_end w + (len - len mod 1000) \<rparr>"
    using assms by (simp add: getPrefetchWindow_nonneg whole_seconds len_def)
  have lo: "0 \<le> len mod 1000" and hi: "len mod 1000 < 1000" by simp_all
  have l: "w_end (getPrefetchWindow w) - w_start (getPrefetchWindow w)
             = 3 * len - 2 * (len mod 1000)"
    by (simp add: eq len_def)
  show ?thesis
    unfolding whole_seconds len_def [symmetric] l
    using lo hi by (simp add: eq)
qed

text \<open>The amended C4 at a window of one minute and at one of a second and a half.\<close>

theorem C4_prefetch_window_witness:
  "getPrefetchWindow \<lparr> w_start = 10000, w_end = 70000 \<rparr> = \<lparr> w_start = - 50000, w_end = 130000 \<rparr>
   \<and> getPrefetchWindow \<lparr> w_start = 0, w_end = 1500 \<rparr> = \<lparr> w_start = - 1000, w_end = 2500 \<rparr>"
  using C4_prefetch_window [of "\<lparr> w_start = 10000, w_end = 70000 \<rparr>"]
        C4_prefetch_window [of "\<lparr> w_start = 0, w_end = 1500 \<rparr>"]
  by simp




text \<open>
  C6: for every recording with known start and end, \<open>getPerfectWindowFromMedia\<close> returns
  exactly \<open>{start, end}\<close>, whatever the collaborators and the configuration of the
  component (so whatever the configured window length).
\<close>

theorem C6_perfect_window_of_recording:
  assumes "isRecording m" and "getStartTime m = Some s" and "getEndTime m = Some e"
  shows "getPerfectWindowFromMedia env this m = Some \<lparr> w_start = s, w_end = e \<rparr>"
  using assms by (simp add: getPerfectWindowFromMedia_def isRecording_def isEvent_def)

text \<open>C6 at a recording of one hour, with a configured window and with none.\<close>

theorem C6_perfect_window_of_recording_witness:
  "isRecording (demo_media ''r'' Recording 3600000 7200000)
   \<and> getPerfectWindowFromMedia demo_env demo_core (demo_media ''r'' Recording 3600000 7200000)
       = Some \<lparr> w_start = 3600000, w_end = 7200000 \<rparr>
   \<and> getPerfectWindowFromMedia demo_env (demo_core\<lparr> timelineConfig := None \<rparr>)
         (demo_media ''r'' Recording 3600000 7200000)
       = Some \<lparr> w_start = 3600000, w_end = 7200000 \<rparr>"
proof -
  have r: "isRecording (demo_media ''r'' Recording 3600000 7200000)"
    by (simp add: isRecording_def demo_media_def)
  have s: "getStartTime (demo_media ''r'' Recording 3600000 7200000) = Some 3600000"
    and e: "getEndTime (demo_media ''r'' Recording 3600000 7200000) = Some 7200000"
    by (simp_all add: demo_media_def)
  show ?thesis
    using r C6_perfect_window_of_recording [OF r s e, of demo_env demo_core]
      C6_perfect_window_of_recording [OF r s e, of demo_env "demo_core\<lparr> timelineConfig := None \<rparr>"]
    by simp
qed

section \<open>Claims about the clustering policy\<close>

text \<open>
  C7: for every pair of timeline items, \<open>clusterCriteria\<close> is false whenever the first or
  the second item's id is the id of the currently selected media item, whatever the types
  of the items and whatever the media layer's \<open>isGroupableWith\<close> says; and it is false
  whenever the media of either item is a recording.
\<close>

theorem C7_cluster_exclusion:
  "(view this = Some v \<and> selectedMedia v = Some sel \<and> getID sel = Some x
      \<and> (item_id first = IdStr x \<or> item_id second = IdStr x)
      \<longrightarrow> \<not> clusterCriteria env this first second)
   \<and> ((item_media first = Some fm \<and> isRecording fm)
        \<or> (item_media second = Some fm \<and> isRecording fm)
      \<longrightarrow> \<not> clusterCriteria env this first second)"
  by (auto simp add: clusterCriteria_def Let_def isRecording_def isEvent_def
      split: option.splits)

text \<open>
  C7 on the concrete component, whose selected item is \<open>e1\<close> and whose media layer groups
  everything: a pair with \<open>e1\<close> and a pair with a recording are refused, a pair of two
  other events is accepted.
\<close>

theorem C7_cluster_exclusion_witness:
  "\<not> clusterCriteria demo_env demo_core
       (demo_item ''e1'' (demo_media ''e1'' Clip 5000 9000))
       (demo_item ''e0'' (demo_media ''e0'' Clip 1000 3000))
   \<and> \<not> clusterCriteria demo_env demo_core
       (demo_item ''e0'' (demo_media ''e0'' Clip 1000 3000))
       (demo_item ''r'' (demo_media ''r'' Recording 0 3600000))
   \<and> clusterCriteria demo_env demo_core
       (demo_item ''e0'' (demo_media ''e0'' Clip 1000 3000))
       (demo_item ''e2'' (demo_media ''e2'' Clip 1000 3000))"
proof -
  have v: "view demo_core = Some demo_view" by (simp add: demo_core_def)
  have a: "\<not> clusterCriteria demo_env demo_core
       (demo_item ''e1'' (demo_media ''e1'' Clip 5000 9000))
       (demo_item ''e0'' (demo_media ''e0'' Clip 1000 3000))"
    using C7_cluster_exclusion [of demo_core demo_view "demo_media ''e1'' Clip 5000 9000" "''e1''"
        "demo_item ''e1'' (demo_media ''e1'' Clip 5000 9000)"
        "demo_item ''e0'' (demo_media ''e0'' Clip 1000 3000)" demo_env]
      v demo_selected
    by (simp add: demo_media_def demo_item_def)
  have b: "\<not> clusterCriteria demo_env demo_core
       (demo_item ''e0'' (demo_media ''e0'' Clip 1000 3000))
       (demo_item ''r'' (demo_media ''r'' Recording 0 3600000))"
    using C7_cluster_exclusion [of demo_core demo_view "demo_media ''e1'' Clip 5000 9000" "''e1''"
        "demo_item ''e0'' (demo_media ''e0'' Clip 1000 3000)"
        "demo_item ''r'' (demo_media ''r'' Recording 0 3600000)" demo_env
        "demo_media ''r'' Recording 0 3600000"]
    by (simp add: demo_media_def demo_item_def isRecording_def)
  have c: "clusterCriteria demo_env demo_core
       (demo_item ''e0'' (demo_media ''e0'' Clip 1000 3000))
       (demo_item ''e2'' (demo_media ''e2'' Clip 1000 3000))"
    using v demo_selected
    by (simp add: clusterCriteria_def demo_item_def demo_media_def isEvent_def demo_env_def
        demo_core_def)
  show ?thesis using a b c by simp
qed

text \<open>
  C9: when the component has no camera map, \<open>clusterCriteria\<close> is false for every pair of
  timeline items.
\<close>

theorem C9_no_cameras_no_cluster:
  assumes "cameras this = None"
  shows "\<not> clusterCriteria env this first second"
  using assms by (simp add: clusterCriteria_def)

text \<open>C9 on the concrete component without its camera map, at a pair it accepts otherwise.\<close>

theorem C9_no_cameras_no_cluster_witness:
  "cameras (demo_core\<lparr> cameras := None \<rparr>) = None
   \<and> \<not> clusterCriteria demo_env (demo_core\<lparr> cameras := None \<rparr>)
       (demo_item ''e0'' (demo_media ''e0'' Clip 1000 3000))
       (demo_item ''e2'' (demo_media ''e2'' Clip 1000 3000))"
proof -
  have n: "cameras (demo_core\<lparr> cameras := None \<rparr>) = None" by simp
  show ?thesis
    using n C9_no_cameras_no_cluster [OF n, of demo_env
        "demo_item ''e0'' (demo_media ''e0'' Clip 1000 3000)"
        "demo_item ''e2'' (demo_media ''e2'' Clip 1000 3000)"]
    by simp
qed

section \<open>Claims about the range change\<close>

text \<open>
  C8, as stated, with the pointer held. First, the pointer went down at 5000 in the window
  \<open>{0, 10000}\<close> and the new window is \<open>{2000, 22000}\<close>: interpolating by ratio gives 12000,
  the code gives 7000, the new start plus the offset of the pointer at pointer-down.
  Second, a plain pan: the pointer went down at 5500 and the new window is
  \<open>{2000, 12000}\<close>: the ratio gives 7500, the code gives 7000, since only the whole seconds
  of the offset are added.
\<close>

theorem C8_counterexample:
  "snd (timelineRangeChangeHandler (demo_core\<lparr> pointerHeld := Some (demo_held 5000) \<rparr>)
          (demo_pan 2000 22000))
     = [ThrottledSetViewDuringRangeChange 7000 (demo_pan 2000 22000)]
   \<and> rat_of_int 7000 \<noteq> 2000 + (rat_of_int (5000 - 0) / rat_of_int (10000 - 0)) * (22000 - 2000)
   \<and> snd (timelineRangeChangeHandler (demo_core\<lparr> pointerHeld := Some (demo_held 5500) \<rparr>)
          (demo_pan 2000 12000))
     = [ThrottledSetViewDuringRangeChange 7000 (demo_pan 2000 12000)]
   \<and> rat_of_int 7000 \<noteq> 2000 + (rat_of_int (5500 - 0) / rat_of_int (10000 - 0)) * (12000 - 2000)"
  using demo_pan_admitted [of "Some (demo_held 5000)" 2000 22000]
    demo_pan_admitted [of "Some (demo_held 5500)" 2000 12000]
  by (simp add: rangeChange_effects)
     (simp add: demo_held_def demo_pan_def toInteger_def floor_eq_iff)

text \<open>
  C8, amended: for every user-initiated, non-wheel, non-pinch range change on an existing
  widget, the handler hands the throttled view update a target time \<open>t\<close>. Without a pointer
  hold (or with a hold that captured no window) \<open>t\<close> is the new window's end. With a pointer
  hold that captured the window \<open>w0\<close>, \<open>t\<close> is the new window's start plus the whole seconds
  of \<open>anchorTime - w0.start\<close>; this is the pointer's time interpolated by ratio onto the
  new window when that offset is a whole number of seconds and the new window is as long
  as \<open>w0\<close>.
\<close>

theorem C8_target_time:
  assumes "timeline this \<noteq> None" and "byUser p" and "event_type p \<noteq> ''wheel''"
    and "additionalEvent p \<noteq> Some ''pinchin''" and "additionalEvent p \<noteq> Some ''pinchout''"
  shows "\<exists>t. snd (timelineRangeChangeHandler this p) = [ThrottledSetViewDuringRangeChange t p]
           \<and> (pointerHeld this = None \<longrightarrow> t = rc_end p)
           \<and> (\<forall>held. pointerHeld this = Some held \<longrightarrow>
                 (ph_window held = None \<longrightarrow> t = rc_end p)
                 \<and> (\<forall>w0. ph_window held = Some w0 \<longrightarrow>
                       t = rc_start p
                             + 1000 * toInteger (rat_of_int (ph_time held - w_start w0) / 1000)
                       \<and> ((ph_time held - w_start w0) mod 1000 = 0
                            \<and> rc_end p - rc_start p = w_end w0 - w_start w0
                            \<and> w_end w0 \<noteq> w_start w0 \<longrightarrow>
                          rat_of_int t =
                            rat_of_int (rc_start p)
                              + rat_of_int (ph_time held - w_start w0)
                                  / rat_of_int (w_end w0 - w_start w0)
                                  * rat_of_int (rc_end p - rc_start p))))"
proof -
  have ratio: "rat_of_int (s + 1000 * toInteger (rat_of_int d / 1000))
                 = rat_of_int s + rat_of_int d / rat_of_int l0 * rat_of_int l1"
    if "d mod 1000 = 0" and "l1 = l0" and "l0 \<noteq> 0" for s d l0 l1 :: int
    using that by (simp add: toInteger_whole_seconds)
  show ?thesis
  proof (cases "pointerHeld this")
    case None
    then show ?thesis unfolding rangeChange_effects [OF assms] by simp
  next
    case (Some held)
    show ?thesis
    proof (cases "ph_window held")
      case None
      with Some show ?thesis unfolding rangeChange_effects [OF assms] by simp
    next
      case w: (Some w0)
      have "rat_of_int (rc_start p
                + 1000 * toInteger (rat_of_int (ph_time held - w_start w0) / 1000))
              = rat_of_int (rc_start p)
                + rat_of_int (ph_time held - w_start w0)
                    / rat_of_int (w_end w0 - w_start w0)
                    * rat_of_int (rc_end p - rc_start p)"
        if "(ph_time held - w_start w0) mod 1000 = 0"
          and "rc_end p - rc_start p = w_end w0 - w_start w0"
          and "w_end w0 \<noteq> w_start w0"
        using that by (intro ratio) simp_all
      with Some w show ?thesis unfolding rangeChange_effects [OF assms] by simp
    qed
  qed
qed

text \<open>
  The amended C8 on a pan of the window \<open>{0, 10000}\<close> to \<open>{2000, 12000}\<close>, with the pointer
  held at 4000 and with no pointer held.
\<close>

theorem C8_target_time_witness:
  "snd (timelineRangeChangeHandler (demo_core\<lparr> pointerHeld := Some (demo_held 4000) \<rparr>)
          (demo_pan 2000 12000))
     = [ThrottledSetViewDuringRangeChange 6000 (demo_pan 2000 12000)]
   \<and> snd (timelineRangeChangeHandler (demo_core\<lparr> pointerHeld := None \<rparr>) (demo_pan 2000 12000))
     = [ThrottledSetViewDuringRangeChange 12000 (demo_pan 2000 12000)]"
proof -
  have a: "snd (timelineRangeChangeHandler (demo_core\<lparr> pointerHeld := Some (demo_held 4000) \<rparr>)
          (demo_pan 2000 12000))
     = [ThrottledSetViewDuringRangeChange 6000 (demo_pan 2000 12000)]"
    using demo_pan_admitted [of "Some (demo_held 4000)" 2000 12000]
      C8_target_time [of "demo_core\<lparr> pointerHeld := Some (demo_held 4000) \<rparr>"
        "demo_pan 2000 12000"]
    by (auto simp add: demo_held_def demo_pan_def demo_core_def toInteger_def)
  have b: "snd (timelineRangeChangeHandler (demo_core\<lparr> pointerHeld := None \<rparr>)
          (demo_pan 2000 12000))
     = [ThrottledSetViewDuringRangeChange 12000 (demo_pan 2000 12000)]"
    using demo_pan_admitted [of None 2000 12000]
      C8_target_time [of "demo_core\<lparr> pointerHeld := None \<rparr>" "demo_pan 2000 12000"]
    by (auto simp add: demo_pan_def demo_core_def)
  show ?thesis using a b by simp
qed

section \<open>Claims about the synchronisation cycle\<close>

text \<open>
  C1, as stated, on the concrete component with the pointer held: the selected media item
  is the event \<open>e1\<close> and the widget has nothing selected; after
  \<open>updateTimelineFromView\<close> the widget's selection is \<open>e1\<close>. The call of
  \<^verbatim>\<open>setSelection\<close> is the one step of the cycle that does not test the pointer hold.
\<close>

theorem C1_counterexample:
  "pointerHeld (demo_core\<lparr> pointerHeld := Some (demo_held 5000) \<rparr>) \<noteq> None
   \<and> map_option tl_selection (timeline (demo_core\<lparr> pointerHeld := Some (demo_held 5000) \<rparr>))
       = Some []
   \<and> map_option tl_selection
         (timeline (fst (updateTimelineFromView demo_env
                           (demo_core\<lparr> pointerHeld := Some (demo_held 5000) \<rparr>))))
       = Some [IdStr ''e1'']"
  by (simp add: demo_defs sync_defs Let_def)

text \<open>
  C1, amended: while a pointer hold is active, a run of \<open>updateTimelineFromView\<close> never
  modifies the widget's window, never touches the data source (no refresh, no rewrite of
  an event, the dataset is unchanged), and changes nothing but the widget's selection:
  when the cycle runs (all collaborators present) and the selected media item is an event
  with a non-empty id, the selection is set to that id; otherwise the component is left
  exactly as it was.
\<close>

theorem C1_pointer_held:
  assumes "pointerHeld this \<noteq> None"
  shows "map_option tl_window (timeline (fst (updateTimelineFromView env this)))
           = map_option tl_window (timeline this)
         \<and> timelineSource (fst (updateTimelineFromView env this)) = timelineSource this
         \<and> (\<forall>w. Refresh w \<notin> set (snd (updateTimelineFromView env this)))
         \<and> (\<forall>i. RewriteEvent i \<notin> set (snd (updateTimelineFromView env this)))
         \<and> (\<forall>v m i. hass this \<and> cameras this \<noteq> None \<and> timelineConfig this \<noteq> None
                 \<and> timelineSource this \<noteq> None \<and> timeline this \<noteq> None
                 \<and> view this = Some v \<and> selectedMedia v = Some m
                 \<and> isEvent m \<and> getID m = Some i \<and> i \<noteq> [] \<longrightarrow>
               fst (updateTimelineFromView env this) = timeline_setSelection [IdStr i] this
               \<and> map_option tl_selection (timeline (fst (updateTimelineFromView env this)))
                   = Some [IdStr i])
         \<and> (\<not> (\<exists>v m i. hass this \<and> cameras this \<noteq> None \<and> timelineConfig this \<noteq> None
                 \<and> timelineSource this \<noteq> None \<and> timeline this \<noteq> None
                 \<and> view this = Some v \<and> selectedMedia v = Some m
                 \<and> isEvent m \<and> getID m = Some i \<and> i \<noteq> []) \<longrightarrow>
               fst (updateTimelineFromView env this) = this)"
proof (cases "\<not> hass this \<or> cameras this = None \<or> view this = None \<or> timelineConfig this = None
           \<or> timelineSource this = None \<or> timeline this = None")
  case True
  from update_skipped [OF this] have "updateTimelineFromView env this = (this, [])" .
  with True show ?thesis by auto
next
  case False
  then obtain v widget where v: "view this = Some v" and w: "timeline this = Some widget"
    by auto
  define dw where "dw = desiredWindowOf env this v (tl_window widget)"
  have u: "updateTimelineFromView env this =
             (fst (applyViewToTimeline env this v (tl_window widget) dw),
              dispatchFreshMediaQuery env
                (fst (applyViewToTimeline env this v (tl_window widget) dw)) v dw)"
  proof -
    from False have "\<not> (\<not> hass this \<or> cameras this = None \<or> timelineConfig this = None
            \<or> timelineSource this = None)" by simp
    from update_runs [OF v w this] assms show ?thesis by (simp add: dw_def apply_held)
  qed
  have d: "dispatchFreshMediaQuery env s v dw = []
           \<or> (\<exists>nv. dispatchFreshMediaQuery env s v dw = [DispatchChangeEvent nv])" for s
    by (simp add: dispatchFreshMediaQuery_def split: option.splits)
  have eff: "(\<forall>w. Refresh w \<notin> set (snd (updateTimelineFromView env this)))
             \<and> (\<forall>i. RewriteEvent i \<notin> set (snd (updateTimelineFromView env this)))"
    using d [of "fst (applyViewToTimeline env this v (tl_window widget) dw)"] unfolding u by auto
  have st: "fst (updateTimelineFromView env this) =
              (case selectedMedia v of
                 None \<Rightarrow> this
               | Some m \<Rightarrow>
                   if isEvent m
                   then (case getID m of
                           None \<Rightarrow> this
                         | Some i \<Rightarrow>
                             if i \<noteq> [] then timeline_setSelection [IdStr i] this else this)
                   else this)"
    unfolding u using assms by (simp add: apply_held)
  have win: "map_option tl_window (timeline (fst (updateTimelineFromView env this)))
               = map_option tl_window (timeline this)"
    unfolding st using w by (simp add: timeline_setSelection_def split: option.splits)
  have src: "timelineSource (fst (updateTimelineFromView env this)) = timelineSource this"
    unfolding st by (simp add: timeline_setSelection_def split: option.splits)
  have sel: "fst (updateTimelineFromView env this) = timeline_setSelection [IdStr i] this
             \<and> map_option tl_selection (timeline (fst (updateTimelineFromView env this)))
                 = Some [IdStr i]"
    if "selectedMedia v = Some m" and "isEvent m" and "getID m = Some i" and "i \<noteq> []" for m i
    unfolding st using that w by (simp add: timeline_setSelection_def)
  have same: "fst (updateTimelineFromView env this) = this"
    if "\<not> (\<exists>m i. selectedMedia v = Some m \<and> isEvent m \<and> getID m = Some i \<and> i \<noteq> [])"
    unfolding st using that by (auto split: option.splits)
  have sel': "fst (updateTimelineFromView env this) = timeline_setSelection [IdStr i] this
              \<and> map_option tl_selection (timeline (fst (updateTimelineFromView env this)))
                  = Some [IdStr i]"
    if "view this = Some v' \<and> selectedMedia v' = Some m \<and> isEvent m \<and> getID m = Some i
        \<and> i \<noteq> []" for v' m i
  proof -
    from that v have "v' = v" by simp
    with that show ?thesis by (intro sel [of m i]) simp_all
  qed
  have same': "fst (updateTimelineFromView env this) = this"
    if "\<not> (\<exists>v m i. hass this \<and> cameras this \<noteq> None \<and> timelineConfig this \<noteq> None
                 \<and> timelineSource this \<noteq> None \<and> timeline this \<noteq> None
                 \<and> view this = Some v \<and> selectedMedia v = Some m
                 \<and> isEvent m \<and> getID m = Some i \<and> i \<noteq> [])"
  proof (rule same)
    from that False v
    show "\<not> (\<exists>m i. selectedMedia v = Some m \<and> isEvent m \<and> getID m = Some i \<and> i \<noteq> [])"
      by blast
  qed
  show ?thesis
  proof (intro conjI allI impI)
    show "map_option tl_window (timeline (fst (updateTimelineFromView env this)))
            = map_option tl_window (timeline this)" by (rule win)
    show "timelineSource (fst (updateTimelineFromView env this)) = timelineSource this"
      by (rule src)
    show "Refresh w \<notin> set (snd (updateTimelineFromView env this))" for w using eff by simp
    show "RewriteEvent i \<notin> set (snd (updateTimelineFromView env this))" for i
      using eff by simp
  next
    fix v' m i
    assume a: "hass this \<and> cameras this \<noteq> None \<and> timelineConfig this \<noteq> None
                 \<and> timelineSource this \<noteq> None \<and> timeline this \<noteq> None
                 \<and> view this = Some v' \<and> selectedMedia v' = Some m
                 \<and> isEvent m \<and> getID m = Some i \<and> i \<noteq> []"
    then have b: "view this = Some v' \<and> selectedMedia v' = Some m \<and> isEvent m
                  \<and> getID m = Some i \<and> i \<noteq> []" by simp
    show "fst (updateTimelineFromView env this) = timeline_setSelection [IdStr i] this"
      by (rule conjunct1 [OF sel' [OF b]])
    show "map_option tl_selection (timeline (fst (updateTimelineFromView env this)))
             = Some [IdStr i]"
      by (rule conjunct2 [OF sel' [OF b]])
  next
    assume "\<not> (\<exists>v m i. hass this \<and> cameras this \<noteq> None \<and> timelineConfig this \<noteq> None
                 \<and> timelineSource this \<noteq> None \<and> timeline this \<noteq> None
                 \<and> view this = Some v \<and> selectedMedia v = Some m
                 \<and> isEvent m \<and> getID m = Some i \<and> i \<noteq> [])"
    from same' [OF this] show "fst (updateTimelineFromView env this) = this" .
  qed
qed

text \<open>
  The amended C1 on the concrete component with the pointer held: window and dataset stay,
  the selection becomes \<open>e1\<close>, nothing is sent out.
\<close>

theorem C1_pointer_held_witness:
  "map_option tl_window
     (timeline (fst (updateTimelineFromView demo_env
                       (demo_core\<lparr> pointerHeld := Some (demo_held 5000) \<rparr>))))
     = Some \<lparr> w_start = 0, w_end = 10000 \<rparr>
   \<and> timelineSource (fst (updateTimelineFromView demo_env
                            (demo_core\<lparr> pointerHeld := Some (demo_held 5000) \<rparr>)))
     = Some []
   \<and> map_option tl_selection
       (timeline (fst (updateTimelineFromView demo_env
                         (demo_core\<lparr> pointerHeld := Some (demo_held 5000) \<rparr>))))
     = Some [IdStr ''e1'']
   \<and> snd (updateTimelineFromView demo_env (demo_core\<lparr> pointerHeld := Some (demo_held 5000) \<rparr>))
     = []"
proof -
  have h: "pointerHeld (demo_core\<lparr> pointerHeld := Some (demo_held 5000) \<rparr>) \<noteq> None" by simp
  have g: "hass (demo_core\<lparr> pointerHeld := Some (demo_held 5000) \<rparr>)
           \<and> cameras (demo_core\<lparr> pointerHeld := Some (demo_held 5000) \<rparr>) \<noteq> None
           \<and> timelineConfig (demo_core\<lparr> pointerHeld := Some (demo_held 5000) \<rparr>) \<noteq> None
           \<and> timelineSource (demo_core\<lparr> pointerHeld := Some (demo_held 5000) \<rparr>) = Some []
           \<and> timeline (demo_core\<lparr> pointerHeld := Some (demo_held 5000) \<rparr>)
               = Some \<lparr> tl_window = \<lparr> w_start = 0, w_end = 10000 \<rparr>, tl_selection = [],
                        tl_customTime = None \<rparr>
           \<and> view (demo_core\<lparr> pointerHeld := Some (demo_held 5000) \<rparr>) = Some demo_view
           \<and> selectedMedia demo_view = Some (demo_media ''e1'' Clip 5000 9000)
           \<and> isEvent (demo_media ''e1'' Clip 5000 9000)
           \<and> getID (demo_media ''e1'' Clip 5000 9000) = Some ''e1'' \<and> ''e1'' \<noteq> []"
    by (simp add: demo_core_def demo_selected isEvent_def demo_media_def)
  have e: "snd (updateTimelineFromView demo_env
                  (demo_core\<lparr> pointerHeld := Some (demo_held 5000) \<rparr>)) = []"
    by (simp add: demo_defs sync_defs Let_def)
  note t = C1_pointer_held [OF h, of demo_env]
  have a: "map_option tl_window
     (timeline (fst (updateTimelineFromView demo_env
                       (demo_core\<lparr> pointerHeld := Some (demo_held 5000) \<rparr>))))
     = Some \<lparr> w_start = 0, w_end = 10000 \<rparr>"
    using conjunct1 [OF t] g by simp
  have b: "timelineSource (fst (updateTimelineFromView demo_env
                            (demo_core\<lparr> pointerHeld := Some (demo_held 5000) \<rparr>)))
     = Some []"
    using conjunct1 [OF conjunct2 [OF t]] g by simp
  have c: "map_option tl_selection
       (timeline (fst (updateTimelineFromView demo_env
                         (demo_core\<lparr> pointerHeld := Some (demo_held 5000) \<rparr>))))
     = Some [IdStr ''e1'']"
    using conjunct1 [OF conjunct2 [OF conjunct2 [OF conjunct2 [OF conjunct2 [OF t]]]]] g
    by blast
  show ?thesis using a b c e by simp
qed

text \<open>
  C3: let the component have a view and a widget. If the component is in mini mode, or the
  view's query is a recordings query, or no event query can be constructed for the desired
  window, or the freshly constructed query holds the same queries as the view's query and
  the view's results (which have a timestamp) pass the freshness check on those queries,
  then \<open>updateTimelineFromView\<close> dispatches no view change.
\<close>

theorem C3_no_redundant_view_change:
  assumes "view this = Some v" and "timeline this = Some widget"
    and "mini this \<or> areRecordingQueries (query v)
         \<or> createEventMediaQuerys env this
              (Some (desiredWindowOf env this v (tl_window widget))) = None
         \<or> (\<exists>fresh current qs r ts.
               createEventMediaQuerys env this
                 (Some (desiredWindowOf env this v (tl_window widget))) = Some fresh
               \<and> query v = Some current \<and> getQueries current = Some qs
               \<and> getQueries fresh = Some qs
               \<and> queryResults v = Some r \<and> getResultsTimestamp r = Some ts
               \<and> areMediaQueriesResultsFresh env qs ts)"
  shows "\<forall>nv. DispatchChangeEvent nv \<notin> set (snd (updateTimelineFromView env this))"
proof (cases "\<not> hass this \<or> cameras this = None \<or> timelineConfig this = None
              \<or> timelineSource this = None")
  case True
  then have "updateTimelineFromView env this = (this, [])" by (intro update_skipped) auto
  then show ?thesis by simp
next
  case False
  define dw where "dw = desiredWindowOf env this v (tl_window widget)"
  define this4 where "this4 = fst (applyViewToTimeline env this v (tl_window widget) dw)"
  have pres: "view this4 = view this" "mini this4 = mini this"
    "timeline this4 = None \<longleftrightarrow> timeline this = None"
    "timelineSource this4 = None \<longleftrightarrow> timelineSource this = None"
    unfolding this4_def using apply_preserves [of env this v "tl_window widget" dw] by simp_all
  have q: "createEventMediaQuerys env this4 (Some dw) = createEventMediaQuerys env this (Some dw)"
    by (rule createEventMediaQuerys_presence) (simp_all add: pres)
  have "dispatchFreshMediaQuery env this4 v dw = []"
  proof (rule dispatchFreshMediaQuery_nothing)
    show "view this4 = Some v" using assms(1) pres by simp
    show "mini this4 \<or> areRecordingQueries (query v)
         \<or> createEventMediaQuerys env this4 (Some dw) = None
         \<or> (\<exists>fresh current qs r ts.
               createEventMediaQuerys env this4 (Some dw) = Some fresh
               \<and> query v = Some current \<and> getQueries current = Some qs
               \<and> getQueries fresh = Some qs
               \<and> queryResults v = Some r \<and> getResultsTimestamp r = Some ts
               \<and> areMediaQueriesResultsFresh env qs ts)"
      unfolding q pres using assms(3) unfolding dw_def .
  qed
  moreover have "snd (updateTimelineFromView env this)
      = snd (applyViewToTimeline env this v (tl_window widget) dw)
        @ dispatchFreshMediaQuery env this4 v dw"
    unfolding update_runs [OF assms(1,2) False] by (simp add: dw_def this4_def)
  ultimately show ?thesis by (simp add: apply_effects)
qed

text \<open>
  C3 on the concrete component, whose view already holds the query the data source gives
  and fresh results, and on the same component in mini mode: the cycle refreshes the
  prefetch window and rewrites the selected event, and dispatches nothing.
\<close>

theorem C3_no_redundant_view_change_witness:
  "snd (updateTimelineFromView demo_env demo_core)
     = [Refresh \<lparr> w_start = - 10000, w_end = 20000 \<rparr>, RewriteEvent ''e1'']
   \<and> snd (updateTimelineFromView demo_env (demo_core\<lparr> mini := True \<rparr>))
     = [Refresh \<lparr> w_start = - 10000, w_end = 20000 \<rparr>, RewriteEvent ''e1'']"
proof -
  have v: "view demo_core = Some demo_view"
    and w: "timeline demo_core = Some \<lparr> tl_window = \<lparr> w_start = 0, w_end = 10000 \<rparr>,
              tl_selection = [], tl_customTime = None \<rparr>"
    by (simp_all add: demo_core_def)
  have v': "view (demo_core\<lparr> mini := True \<rparr>) = Some demo_view"
    and w': "timeline (demo_core\<lparr> mini := True \<rparr>)
               = Some \<lparr> tl_window = \<lparr> w_start = 0, w_end = 10000 \<rparr>,
                        tl_selection = [], tl_customTime = None \<rparr>"
    by (simp_all add: demo_core_def)
  have c: "\<exists>fresh current qs r ts.
               createEventMediaQuerys demo_env demo_core
                 (Some (desiredWindowOf demo_env demo_core demo_view
                          (tl_window \<lparr> tl_window = \<lparr> w_start = 0, w_end = 10000 \<rparr>,
                                       tl_selection = [], tl_customTime = None \<rparr>))) = Some fresh
               \<and> query demo_view = Some current \<and> getQueries current = Some qs
               \<and> getQueries fresh = Some qs
               \<and> queryResults demo_view = Some r \<and> getResultsTimestamp r = Some ts
               \<and> areMediaQueriesResultsFresh demo_env qs ts"
    by (simp add: demo_defs createEventMediaQuerys_def)
  have n: "\<forall>nv. DispatchChangeEvent nv \<notin> set (snd (updateTimelineFromView demo_env demo_core))"
    using C3_no_redundant_view_change [OF v w, of demo_env] c by blast
  have m: "\<forall>nv. DispatchChangeEvent nv
                  \<notin> set (snd (updateTimelineFromView demo_env (demo_core\<lparr> mini := True \<rparr>)))"
    using C3_no_redundant_view_change [OF v' w', of demo_env] by simp
  have a: "snd (updateTimelineFromView demo_env demo_core)
             = [Refresh \<lparr> w_start = - 10000, w_end = 20000 \<rparr>, RewriteEvent ''e1'']"
    using n by (simp add: demo_defs sync_defs Let_def getPrefetchWindow_nonneg)
  have b: "snd (updateTimelineFromView demo_env (demo_core\<lparr> mini := True \<rparr>))
             = [Refresh \<lparr> w_start = - 10000, w_end = 20000 \<rparr>, RewriteEvent ''e1'']"
    using m by (simp add: demo_defs sync_defs Let_def getPrefetchWindow_nonneg)
  show ?thesis using a b by simp
qed

section \<open>Claims about the click handler\<close>

text \<open>
  C2 fails on the path the claim names first: whenever \<open>ignoreClick\<close> is set at entry, the
  click handler returns at its guard, before the assignment that resets the flag at its
  end; the component is unchanged, so \<open>ignoreClick\<close> is still set when the handler
  returns.
\<close>

theorem C2_ignored_click_keeps_flag:
  assumes "ignoreClick this"
  shows "timelineClickHandler env this p = (this, [StopEventFromActivatingCardWideActions])
         \<and> ignoreClick (fst (timelineClickHandler env this p))"
  using assms
  by (cases "view this"; cases "timeline this"; cases "p_what p")
     (simp_all add: timelineClickHandler_def)

text \<open>
  The failing input, reached by the handlers themselves: pointer down, a range change by
  the user while the pointer is held (which sets \<open>ignoreClick\<close>), pointer up, click. The
  flag is set before the click and still set after it.
\<close>

theorem C2_ignored_click_keeps_flag_witness:
  "ignoreClick
     (mouseUpHandler
        (fst (timelineRangeChangeHandler (mouseDownHandler demo_core demo_click)
                (demo_pan 2000 12000))))
   \<and> ignoreClick
       (fst (timelineClickHandler demo_env
               (mouseUpHandler
                  (fst (timelineRangeChangeHandler (mouseDownHandler demo_core demo_click)
                          (demo_pan 2000 12000))))
               demo_click))"
proof -
  have i: "ignoreClick
     (mouseUpHandler
        (fst (timelineRangeChangeHandler (mouseDownHandler demo_core demo_click)
                (demo_pan 2000 12000))))"
    by (simp add: mouseUpHandler_def mouseDownHandler_def timelineRangeChangeHandler_def
        removeTargetBar_def setTargetBarAppropriately_def Let_def demo_defs)
  show ?thesis using i C2_ignored_click_keeps_flag [OF i, of demo_env demo_click] by simp
qed

section \<open>Claims about the event view\<close>

text \<open>
  C10: let the current view have a selected media item with id \<open>x\<close>, and let
  \<open>createViewWithEventMediaQuery\<close>, called without a selected item, return a view. Then
  that view is the one the view factory \<open>createViewForEvents\<close> made for the current view
  and the query, with nothing changed but the selection of its results; and whenever the
  results of the factory's view contain an item with id \<open>x\<close>, the returned view has the
  same results and its selected result is one of them with id \<open>x\<close>: the current selection
  persists across the re-query.
\<close>

theorem C10_selection_persists:
  assumes "view this = Some current"
    and "selectedMedia current = Some sel"
    and "getID sel = Some x"
    and "createViewWithEventMediaQuery env this q targetView None = Some newView"
  shows "\<exists>qs v. q = Some qs
           \<and> createViewForEvents env current qs targetView
                (case timelineConfig this of None \<Rightarrow> None | Some c \<Rightarrow> media c) = Some v
           \<and> newView =
               v\<lparr> queryResults :=
                    map_option (selectResultIfFound (\<lambda>m. getID m = Some x)) (queryResults v) \<rparr>
           \<and> (\<forall>r. queryResults v = Some r \<and> (\<exists>m\<in>set (getResults r). getID m = Some x) \<longrightarrow>
                  (\<exists>r' m. queryResults newView = Some r' \<and> getResults r' = getResults r
                     \<and> selectedMedia newView = Some m \<and> getID m = Some x
                     \<and> m \<in> set (getResults r)))"
proof -
  from createViewWithEventMediaQuery_persisting [OF assms(1,2,4)] obtain qs v
    where q: "q = Some qs"
      and f: "createViewForEvents env current qs targetView
                (case timelineConfig this of None \<Rightarrow> None | Some c \<Rightarrow> media c) = Some v"
      and nv: "newView = selectInView (\<lambda>m. getID m = getID sel) v"
    by blast
  have nv': "newView =
               v\<lparr> queryResults :=
                    map_option (selectResultIfFound (\<lambda>m. getID m = Some x)) (queryResults v) \<rparr>"
    using nv assms(3) by (simp add: selectInView_def)
  have sel: "\<exists>r' m. queryResults newView = Some r' \<and> getResults r' = getResults r
                     \<and> selectedMedia newView = Some m \<and> getID m = Some x
                     \<and> m \<in> set (getResults r)"
    if r: "queryResults v = Some r" and ex: "\<exists>m\<in>set (getResults r). getID m = Some x" for r
  proof -
    from selectResultIfFound_selects [OF ex] obtain m
      where "getSelectedResult (selectResultIfFound (\<lambda>m. getID m = Some x) r) = Some m"
        and "getID m = Some x" and "m \<in> set (getResults r)" by blast
    then show ?thesis
      using r by (simp add: nv' selectedMedia_def getResults_selectResultIfFound)
  qed
  show ?thesis
  proof (intro exI [of _ qs] exI [of _ v] conjI allI impI)
    show "q = Some qs" by (rule q)
    show "createViewForEvents env current qs targetView
            (case timelineConfig this of None \<Rightarrow> None | Some c \<Rightarrow> media c) = Some v" by (rule f)
    show "newView =
            v\<lparr> queryResults :=
                 map_option (selectResultIfFound (\<lambda>m. getID m = Some x)) (queryResults v) \<rparr>"
      by (rule nv')
  next
    fix r
    assume "queryResults v = Some r \<and> (\<exists>m\<in>set (getResults r). getID m = Some x)"
    then show "\<exists>r' m. queryResults newView = Some r' \<and> getResults r' = getResults r
                     \<and> selectedMedia newView = Some m \<and> getID m = Some x
                     \<and> m \<in> set (getResults r)"
      using sel by blast
  qed
qed

text \<open>
  C10 on the concrete component: the current selection is \<open>e1\<close>; the view factory
  returns the view with the new query and three results, the first of them, \<open>e2\<close>,
  selected; the view returned is the factory's with \<open>e1\<close>, its second result, selected.
\<close>

theorem C10_selection_persists_witness:
  "createViewWithEventMediaQuery demo_env demo_core
     (Some \<lparr> queriesKind = EventMediaQueries, getQueries = Some [8] \<rparr>) None None
     = Some (demo_view
               \<lparr> query := Some \<lparr> queriesKind = EventMediaQueries, getQueries = Some [8] \<rparr>,
                 queryResults :=
                   Some \<lparr> getResults = [demo_media ''e2'' Clip 11000 12000,
                                         demo_media ''e1'' Clip 5000 9000,
                                         demo_media ''e0'' Clip 1000 3000],
                          getSelectedIndex = Some 1,
                          getResultsTimestamp = Some 20000 \<rparr> \<rparr>)
   \<and> map_option selectedMedia
       (createViewWithEventMediaQuery demo_env demo_core
          (Some \<lparr> queriesKind = EventMediaQueries, getQueries = Some [8] \<rparr>) None None)
     = Some (Some (demo_media ''e1'' Clip 5000 9000))"
proof -
  have v: "view demo_core = Some demo_view" by (simp add: demo_core_def)
  have i: "getID (demo_media ''e1'' Clip 5000 9000) = Some ''e1''" by (simp add: demo_media_def)
  obtain nv where nv: "createViewWithEventMediaQuery demo_env demo_core
        (Some \<lparr> queriesKind = EventMediaQueries, getQueries = Some [8] \<rparr>) None None = Some nv"
    by (simp add: createViewWithEventMediaQuery_def demo_core_def demo_env_def demo_selected)
  from C10_selection_persists [OF v demo_selected i nv] obtain qs fv
    where q: "Some \<lparr> queriesKind = EventMediaQueries, getQueries = Some [8::nat] \<rparr> = Some qs"
      and f: "createViewForEvents demo_env demo_view qs None
                (case timelineConfig demo_core of None \<Rightarrow> None | Some c \<Rightarrow> media c) = Some fv"
      and e: "nv = fv\<lparr> queryResults :=
                       map_option (selectResultIfFound (\<lambda>m. getID m = Some ''e1''))
                         (queryResults fv) \<rparr>"
    by blast
  from f q have fv: "fv = demo_view
               \<lparr> query := Some \<lparr> queriesKind = EventMediaQueries, getQueries = Some [8] \<rparr>,
                 queryResults :=
                   Some \<lparr> getResults = [demo_media ''e2'' Clip 11000 12000,
                                         demo_media ''e1'' Clip 5000 9000,
                                         demo_media ''e0'' Clip 1000 3000],
                          getSelectedIndex = Some 0,
                          getResultsTimestamp = Some 20000 \<rparr> \<rparr>"
    by (auto simp add: demo_env_def)
  have "nv = demo_view
               \<lparr> query := Some \<lparr> queriesKind = EventMediaQueries, getQueries = Some [8] \<rparr>,
                 queryResults :=
                   Some \<lparr> getResults = [demo_media ''e2'' Clip 11000 12000,
                                         demo_media ''e1'' Clip 5000 9000,
                                         demo_media ''e0'' Clip 1000 3000],
                          getSelectedIndex = Some 1,
                          getResultsTimestamp = Some 20000 \<rparr> \<rparr>"
    unfolding e fv by (simp add: selectResultIfFound_def demo_media_def)
  then show ?thesis
    using nv by (simp add: selectedMedia_def getSelectedResult_def)
qed

end
